theory Spec2Isabelle
  imports Main "HOL-Library.Log_Nat"
begin

section \<open>Errors, events and the trainer object\<close>

text \<open>
  The orchestration layer of \<^verbatim>\<open>rllib/agents/trainer.py\<close>. Every \<^verbatim>\<open>raise\<close> of the
  source is a value \<open>Inl e\<close>; \<^verbatim>\<open>except RayError\<close> catches exactly the errors built
  with \<open>RayError\<close>, \<^verbatim>\<open>except Exception\<close> catches every other error but
  \<open>BaseException\<close> (a \<^verbatim>\<open>KeyboardInterrupt\<close>, say).
\<close>

datatype error =
    RayError string
  | RuntimeError string
  | ValueError string
  | AssertionError
  | IndexError
  | ZeroDivisionError
  | OverflowError
  | OtherException string
  | BaseException string

text \<open>
  What the trainer does to the outside world, in the order it does it: calls of
  \<^verbatim>\<open>Trainable.train\<close> (with whether the call returned), remote calls on workers,
  and the calls of the logger.
\<close>

datatype 'w event =
    StepAttempt bool
  | Probe 'w
  | Terminate 'w
  | Sleep
  | LogInfo string
  | LogWarning string
  | LogException string
  | SyncFilters bool

text \<open>
  The attributes of the \<^verbatim>\<open>Trainer\<close> object that \<^verbatim>\<open>train\<close> and
  \<^verbatim>\<open>_try_recover\<close> read or write. \<open>workers\<close> is \<open>None\<close> when the object has no
  attribute \<^verbatim>\<open>workers\<close>, and holds \<^verbatim>\<open>self.workers.remote_workers()\<close> otherwise;
  \<open>execution_plan\<close> is \<open>None\<close> when \<^verbatim>\<open>hasattr(self, "execution_plan")\<close> is false.
  \<open>other\<close> stands for every attribute the orchestration code does not touch.
\<close>

record ('w, 'p, 'x) trainer =
  ignore_worker_failures :: bool
  observation_filter :: string
  synchronize_filters :: bool
  workers :: "'w list option"
  execution_plan :: "('w list \<Rightarrow> 'p) option"
  train_exec_impl :: "'p option"
  other :: 'x

text \<open>
  The code the trainer calls and this file does not define: the training step of the
  base class, \<^verbatim>\<open>ray.get\<close> on the reference of a health check (\<open>True\<close> when it returns,
  \<open>False\<close> when it raises \<^verbatim>\<open>RayError\<close>), the remote \<^verbatim>\<open>__ray_terminate__\<close> (\<open>False\<close>
  when the call raises), and \<^verbatim>\<open>FilterManager.synchronize\<close>.
\<close>

record ('w, 'p, 'x, 'r) extern =
  Trainable_train ::
    "('w, 'p, 'x) trainer \<Rightarrow> (error + 'r option) \<times> ('w, 'p, 'x) trainer"
  ray_get :: "('w, 'p, 'x) trainer \<Rightarrow> 'w \<Rightarrow> bool"
  ray_terminate :: "'w \<Rightarrow> bool"
  FilterManager_synchronize :: "('w, 'p, 'x) trainer \<Rightarrow> error option"

definition MAX_WORKER_FAILURE_RETRIES :: nat where
  "MAX_WORKER_FAILURE_RETRIES = 3"

section \<open>Recovery: \<^verbatim>\<open>Trainer._try_recover\<close>\<close>

text \<open>
  The second loop of \<^verbatim>\<open>_try_recover\<close>: \<^verbatim>\<open>for i, obj_ref in enumerate(checks)\<close>, with
  \<^verbatim>\<open>w = workers.remote_workers()[i]\<close> (an \<^verbatim>\<open>IndexError\<close> out of range). An object
  reference is identified by the worker it was issued to. A worker whose check
  raises is terminated, and a failing termination is only logged.
\<close>

fun check_loop ::
  "('w \<Rightarrow> bool) \<Rightarrow> ('w \<Rightarrow> bool) \<Rightarrow> 'w list \<Rightarrow> nat \<Rightarrow> 'w list \<Rightarrow> 'w list \<Rightarrow>
     (error + 'w list) \<times> 'w event list" where
  "check_loop get term ws i [] healthy = (Inr healthy, [])"
| "check_loop get term ws i (obj_ref # checks) healthy =
     (if i < length ws then
        (let w = ws ! i in
         if get obj_ref then
           (let (r, evs) = check_loop get term ws (Suc i) checks (healthy @ [w])
            in (r, LogInfo ''Worker looks healthy'' # evs))
         else
           (let (r, evs) = check_loop get term ws (Suc i) checks healthy
            in (r, [LogException ''Removing unhealthy worker'', Terminate w]
                   @ (if term w then []
                      else [LogException ''Error terminating unhealthy worker''])
                   @ evs)))
      else (Inl IndexError, []))"

definition try_recover ::
  "('w, 'p, 'x, 'r) extern \<Rightarrow> ('w, 'p, 'x) trainer \<Rightarrow>
     (error + unit) \<times> ('w, 'p, 'x) trainer \<times> 'w event list" where
  "try_recover X s =
     (case execution_plan s of
        None \<Rightarrow> (Inl AssertionError, s, [])
      | Some plan \<Rightarrow>
          (case workers s of
             None \<Rightarrow> (Inl (OtherException ''AttributeError''), s, [])
           | Some ws \<Rightarrow>
               (let checks = ws;
                    evs0 = LogInfo ''Health checking all workers...'' # map Probe ws
                in case check_loop (ray_get X s) (ray_terminate X) ws 0 checks [] of
                     (Inl e, evs) \<Rightarrow> (Inl e, s, evs0 @ evs)
                   | (Inr healthy_workers, evs) \<Rightarrow>
                       if length healthy_workers < 1 then
                         (Inl (RuntimeError
                                 ''Not enough healthy workers remain to continue.''),
                          s, evs0 @ evs)
                       else
                         (Inr (),
                          s\<lparr>workers := Some healthy_workers,
                            train_exec_impl := Some (plan healthy_workers)\<rparr>,
                          evs0 @ evs
                            @ [LogWarning ''Recreating execution plan after failure'']))))"

section \<open>One iteration: \<^verbatim>\<open>Trainer.train\<close>\<close>

definition sync_filters_if_needed ::
  "('w, 'p, 'x, 'r) extern \<Rightarrow> ('w, 'p, 'x) trainer \<Rightarrow>
     error option \<times> 'w event list" where
  "sync_filters_if_needed X s =
     (if observation_filter s \<noteq> ''NoFilter'' then
        (case FilterManager_synchronize X s of
           Some e \<Rightarrow> (Some e, [SyncFilters (synchronize_filters s)])
         | None \<Rightarrow> (None, [SyncFilters (synchronize_filters s)]))
      else (None, []))"

text \<open>
  The \<^verbatim>\<open>for _ in range(1 + MAX_WORKER_FAILURE_RETRIES)\<close> loop, with the number of
  iterations left as the first argument. The loop ends with \<open>Inr result\<close>, where
  \<open>result\<close> is still \<open>None\<close> when the range is used up, or with the error that
  leaves \<^verbatim>\<open>train\<close>.
\<close>

fun train_loop ::
  "('w, 'p, 'x, 'r) extern \<Rightarrow> nat \<Rightarrow> ('w, 'p, 'x) trainer \<Rightarrow>
     (error + 'r option) \<times> ('w, 'p, 'x) trainer \<times> 'w event list" where
  "train_loop X 0 s = (Inr None, s, [])"
| "train_loop X (Suc n) s =
     (case Trainable_train X s of
        (Inr result, s1) \<Rightarrow> (Inr result, s1, [StepAttempt True])
      | (Inl (RayError m), s1) \<Rightarrow>
          if ignore_worker_failures s1 then
            (case try_recover X s1 of
               (Inl e, s2, evs) \<Rightarrow>
                 (Inl e, s2,
                  [StepAttempt False,
                   LogException ''Error in train call, attempting to recover''] @ evs)
             | (Inr u, s2, evs) \<Rightarrow>
                 (let (r, s3, evs') = train_loop X n s2
                  in (r, s3,
                      [StepAttempt False,
                       LogException ''Error in train call, attempting to recover'']
                      @ evs @ evs')))
          else
            (Inl (RayError m), s1,
             [StepAttempt False, LogInfo ''Worker crashed during call to train().''])
      | (Inl (BaseException m), s1) \<Rightarrow> (Inl (BaseException m), s1, [StepAttempt False])
      | (Inl e, s1) \<Rightarrow> (Inl e, s1, [StepAttempt False, Sleep]))"

definition train ::
  "('w, 'p, 'x, 'r) extern \<Rightarrow> ('w, 'p, 'x) trainer \<Rightarrow>
     (error + 'r) \<times> ('w, 'p, 'x) trainer \<times> 'w event list" where
  "train X s =
     (case train_loop X (1 + MAX_WORKER_FAILURE_RETRIES) s of
        (Inl e, s1, evs) \<Rightarrow> (Inl e, s1, evs)
      | (Inr None, s1, evs) \<Rightarrow>
          (Inl (RuntimeError ''Failed to recover from worker crash''), s1, evs)
      | (Inr (Some result), s1, evs) \<Rightarrow>
          (if workers s1 \<noteq> None then
             (case sync_filters_if_needed X s1 of
                (Some e, evs') \<Rightarrow> (Inl e, s1, evs @ evs')
              | (None, evs') \<Rightarrow> (Inr result, s1, evs @ evs'))
           else (Inr result, s1, evs)))"

text \<open>The calls of \<^verbatim>\<open>Trainable.train\<close> in a trace.\<close>

fun is_attempt :: "'w event \<Rightarrow> bool" where
  "is_attempt (StepAttempt b) = True"
| "is_attempt e = False"

definition attempts :: "'w event list \<Rightarrow> nat" where
  "attempts evs = length (filter is_attempt evs)"

section \<open>Checkpoints: \<^verbatim>\<open>__getstate__\<close> and \<^verbatim>\<open>__setstate__\<close>\<close>

text \<open>
  A checkpoint is the dictionary \<^verbatim>\<open>state\<close>, from the keys \<^verbatim>\<open>"worker"\<close>,
  \<^verbatim>\<open>"optimizer"\<close> and \<^verbatim>\<open>"local_replay_buffer"\<close> to serialized blobs. The record
  holds what the two methods read of the trainer: \<open>remote_pool\<close> is \<open>None\<close> when the
  object has no attribute \<^verbatim>\<open>workers\<close> and the list
  \<^verbatim>\<open>self.workers.remote_workers()\<close> otherwise, \<open>has_replay_buffer\<close> is
  \<^verbatim>\<open>self.local_replay_buffer is not None\<close>, and \<open>store_buffer_in_checkpoints\<close> is the
  truth value of \<^verbatim>\<open>self.config.get("store_buffer_in_checkpoints")\<close>.
\<close>

type_synonym 'b checkpoint = "string \<rightharpoonup> 'b"

record 'w ckpt_trainer =
  remote_pool :: "'w list option"
  has_optimizer :: bool
  optimizer_has_save :: bool
  has_replay_buffer :: bool
  store_buffer_in_checkpoints :: bool

text \<open>
  The calls the two methods make, in order. \<open>RemoteRestore r b\<close> is
  \<^verbatim>\<open>r.restore.remote(remote_state)\<close> where \<^verbatim>\<open>remote_state\<close> is the reference that
  \<^verbatim>\<open>ray.put\<close> returned for the blob \<open>b\<close>: the call is not awaited.
\<close>

datatype ('w, 'b) ckpt_event =
    LocalRestore 'b
  | RayPut 'b
  | RemoteRestore 'w 'b
  | OptimizerRestore 'b
  | BufferSetState 'b
  | Warn string

text \<open>
  The code behind the calls: what the local worker, the optimizer and the replay
  buffer return from saving, whether restoring a blob raises, and what
  \<^verbatim>\<open>log_once\<close> answers for a key.
\<close>

record 'b ckpt_extern =
  local_save :: 'b
  optimizer_save :: 'b
  buffer_get_state :: 'b
  local_restore :: "'b \<Rightarrow> error option"
  optimizer_restore :: "'b \<Rightarrow> error option"
  buffer_set_state :: "'b \<Rightarrow> error option"
  log_once :: "string \<Rightarrow> bool"

definition getstate :: "'b ckpt_extern \<Rightarrow> 'w ckpt_trainer \<Rightarrow> 'b checkpoint" where
  "getstate X s =
     (let state = Map.empty;
          state = (if remote_pool s \<noteq> None
                   then state(''worker'' \<mapsto> local_save X) else state);
          state = (if has_optimizer s \<and> optimizer_has_save s
                   then state(''optimizer'' \<mapsto> optimizer_save X) else state);
          state = (if has_replay_buffer s \<and> store_buffer_in_checkpoints s
                   then state(''local_replay_buffer'' \<mapsto> buffer_get_state X) else state)
      in state)"

text \<open>The first \<^verbatim>\<open>if\<close> of \<^verbatim>\<open>__setstate__\<close>: the local worker, then every remote worker.\<close>

definition restore_workers ::
  "'b ckpt_extern \<Rightarrow> 'b checkpoint \<Rightarrow> 'w ckpt_trainer \<Rightarrow>
     error option \<times> ('w, 'b) ckpt_event list" where
  "restore_workers X state s =
     (case state ''worker'' of
        None \<Rightarrow> (None, [])
      | Some b \<Rightarrow>
          (case remote_pool s of
             None \<Rightarrow> (None, [])
           | Some rs \<Rightarrow>
               (case local_restore X b of
                  Some e \<Rightarrow> (Some e, [LocalRestore b])
                | None \<Rightarrow>
                    (None, LocalRestore b # RayPut b # map (\<lambda>r. RemoteRestore r b) rs))))"

definition restore_optimizer ::
  "'b ckpt_extern \<Rightarrow> 'b checkpoint \<Rightarrow> 'w ckpt_trainer \<Rightarrow>
     error option \<times> ('w, 'b) ckpt_event list" where
  "restore_optimizer X state s =
     (case state ''optimizer'' of
        None \<Rightarrow> (None, [])
      | Some b \<Rightarrow>
          if has_optimizer s then (optimizer_restore X b, [OptimizerRestore b])
          else (None, []))"

definition restore_buffer ::
  "'b ckpt_extern \<Rightarrow> 'b checkpoint \<Rightarrow> 'w ckpt_trainer \<Rightarrow>
     error option \<times> ('w, 'b) ckpt_event list" where
  "restore_buffer X state s =
     (if has_replay_buffer s then
        (if store_buffer_in_checkpoints s then
           (case state ''local_replay_buffer'' of
              Some b \<Rightarrow> (buffer_set_state X b, [BufferSetState b])
            | None \<Rightarrow>
                (None,
                 [Warn ''`store_buffer_in_checkpoints` is True, but no replay data found in state!'']))
         else if state ''local_replay_buffer'' \<noteq> None
                 \<and> log_once X ''no_store_buffer_in_checkpoints_but_data_found'' then
           (None,
            [Warn ''`store_buffer_in_checkpoints` is False, but some replay data found in state!''])
         else (None, []))
      else (None, []))"

definition setstate ::
  "'b ckpt_extern \<Rightarrow> 'b checkpoint \<Rightarrow> 'w ckpt_trainer \<Rightarrow>
     error option \<times> ('w, 'b) ckpt_event list" where
  "setstate X state s =
     (case restore_workers X state s of
        (Some e, evs) \<Rightarrow> (Some e, evs)
      | (None, evs) \<Rightarrow>
          (case restore_optimizer X state s of
             (Some e, evs') \<Rightarrow> (Some e, evs @ evs')
           | (None, evs') \<Rightarrow>
               (case restore_buffer X state s of
                  (r, evs'') \<Rightarrow> (r, evs @ evs' @ evs''))))"

text \<open>The warnings of a trace, and the blobs sent to a remote worker.\<close>

fun warnings :: "('w, 'b) ckpt_event list \<Rightarrow> string list" where
  "warnings [] = []"
| "warnings (Warn m # evs) = m # warnings evs"
| "warnings (e # evs) = warnings evs"

fun received :: "'w \<Rightarrow> ('w, 'b) ckpt_event list \<Rightarrow> 'b list" where
  "received r [] = []"
| "received r (RemoteRestore r' b # evs) =
     (if r' = r then b # received r evs else received r evs)"
| "received r (e # evs) = received r evs"

section \<open>Evaluation: \<^verbatim>\<open>Trainer.evaluate\<close>\<close>

subsection \<open>Python's \<^verbatim>\<open>/\<close> on integers and \<^verbatim>\<open>math.ceil\<close>\<close>

text \<open>
  \<^verbatim>\<open>a / b\<close> on Python integers is the double nearest to the exact quotient (ties to
  the even significand), \<^verbatim>\<open>ZeroDivisionError\<close> for \<open>b = 0\<close> and \<^verbatim>\<open>OverflowError\<close>
  when the quotient is too large for a double. A double is modelled by the rational
  it denotes: a significand of 53 bits, exponents from \<open>-1022\<close> (below, the spacing
  of the subnormal numbers) to \<open>1023\<close>.
\<close>

definition round_half_even :: "rat \<Rightarrow> int" where
  "round_half_even x =
     (let f = \<lfloor>x\<rfloor>; d = x - of_int f
      in if d < 1 / 2 then f
         else if 1 / 2 < d then f + 1
         else if even f then f else f + 1)"

text \<open>The exponent \<open>e\<close> with \<open>2\<^sup>e \<le> a / b < 2\<^sup>e\<^sup>+\<^sup>1\<close>, for positive \<open>a\<close> and \<open>b\<close>.\<close>

definition floor_log2 :: "int \<Rightarrow> int \<Rightarrow> int" where
  "floor_log2 a b =
     (let e0 = bitlen a - bitlen b
      in if (2 :: rat) powi e0 \<le> of_int a / of_int b then e0 else e0 - 1)"

definition double_of_quotient :: "int \<Rightarrow> int \<Rightarrow> rat" where
  "double_of_quotient a b =
     (let q = of_int a / of_int b;
          e = max (floor_log2 a b) (- 1022);
          ulp = (2 :: rat) powi (e - 52)
      in of_int (round_half_even (q / ulp)) * ulp)"

definition py_truediv :: "int \<Rightarrow> int \<Rightarrow> error + rat" where
  "py_truediv a b =
     (if b = 0 then Inl ZeroDivisionError
      else if a = 0 then Inr 0
      else (let r = double_of_quotient \<bar>a\<bar> \<bar>b\<bar>
            in if 2 ^ 1024 \<le> r then Inl OverflowError
               else Inr (if (a < 0) \<noteq> (b < 0) then - r else r)))"

definition math_ceil :: "rat \<Rightarrow> int" where
  "math_ceil x = \<lceil>x\<rceil>"

subsection \<open>The trainer as \<^verbatim>\<open>evaluate\<close> sees it\<close>

text \<open>
  What a custom evaluation function may return: \<^verbatim>\<open>None\<close>, a dictionary of metrics, or
  another object, of which only the truth value matters.
\<close>

type_synonym 'm metrics = "(string \<times> 'm) list"

datatype 'm pyobj = PyNone | PyDict "'m metrics" | PyOther bool

fun truthy :: "'m pyobj \<Rightarrow> bool" where
  "truthy PyNone = False"
| "truthy (PyDict d) = (d \<noteq> [])"
| "truthy (PyOther t) = t"

fun is_dict :: "'m pyobj \<Rightarrow> bool" where
  "is_dict (PyDict d) = True"
| "is_dict x = False"

text \<open>
  \<open>evaluation_workers\<close> is \<open>None\<close> when \<^verbatim>\<open>self.evaluation_workers is None\<close> and the
  remote workers of the evaluation worker set otherwise; \<open>custom_eval_function\<close> is
  \<open>None\<close> when the configured value is false, and otherwise what the function returns
  or raises when called with the evaluation workers.
\<close>

record ('w, 'm) eval_trainer =
  custom_eval_function :: "('w list option \<Rightarrow> error + 'm pyobj) option"
  evaluation_num_episodes :: int
  evaluation_num_workers :: int
  evaluation_workers :: "'w list option"
  eval_observation_filter :: string

datatype 'w eval_event =
    SyncWeights
  | SyncEvalFilters
  | CustomEval
  | LocalSample
  | EvalLocalSample
  | RoundInfo nat int int
  | RemoteSample 'w
  | CollectMetrics

text \<open>
  The code behind the calls of \<^verbatim>\<open>evaluate\<close>, each with the error it raises, if any:
  the weight broadcast of \<^verbatim>\<open>_sync_weights_to_workers\<close>, the filter synchronisation,
  the \<open>i\<close>-th \<^verbatim>\<open>sample()\<close> of the trainer's local worker and of the evaluation set's
  local worker, \<^verbatim>\<open>ray.get\<close> on the samples of round \<open>i\<close>, and \<^verbatim>\<open>collect_metrics\<close> on
  the trainer's local worker and on the evaluation workers.
\<close>

record 'm eval_extern =
  foreach_worker_restore :: "error option"
  eval_filter_synchronize :: "error option"
  local_sample :: "nat \<Rightarrow> error option"
  eval_local_sample :: "nat \<Rightarrow> error option"
  ray_get_round :: "nat \<Rightarrow> error option"
  collect_metrics_local :: "error + 'm metrics"
  collect_metrics_eval :: "error + 'm metrics"

text \<open>\<^verbatim>\<open>sub in s\<close> on Python strings.\<close>

fun starts_with :: "string \<Rightarrow> string \<Rightarrow> bool" where
  "starts_with s [] = True"
| "starts_with [] (c # sub) = False"
| "starts_with (d # s) (c # sub) = (d = c \<and> starts_with s sub)"

fun contains :: "string \<Rightarrow> string \<Rightarrow> bool" where
  "contains [] sub = (sub = [])"
| "contains (d # s) sub = (starts_with (d # s) sub \<or> contains s sub)"

definition no_input_reader :: string where
  "no_input_reader = ''RolloutWorker has no `input_reader` object''"

definition no_env_message :: string where
  "no_env_message =
     ''Cannot evaluate w/o an evaluation worker set in the Trainer or w/o an env on the local worker!''
     @ [CHR 0x0A] @ ''Try one of the following:''
     @ [CHR 0x0A] @ ''1) Set `evaluation_interval` >= 0 to force creating a separate evaluation worker set.''
     @ [CHR 0x0A] @ ''2) Set `create_env_on_driver=True` to force the local (non-eval) worker to have an environment to evaluate on.''"

definition custom_eval_message :: string where
  "custom_eval_message = ''Custom eval function must return dict of metrics, got {}.''"

subsection \<open>The loops\<close>

text \<open>\<^verbatim>\<open>for _ in range(n): worker.sample()\<close>, from call number \<open>i\<close> on.\<close>

fun sample_loop ::
  "(nat \<Rightarrow> error option) \<Rightarrow> 'w eval_event \<Rightarrow> nat \<Rightarrow> nat \<Rightarrow> error option \<times> 'w eval_event list" where
  "sample_loop call ev i 0 = (None, [])"
| "sample_loop call ev i (Suc n) =
     (case call i of
        Some e \<Rightarrow> (Some e, [ev])
      | None \<Rightarrow> (let (r, evs) = sample_loop call ev (Suc i) n in (r, ev # evs)))"

text \<open>
  \<^verbatim>\<open>for i in range(num_rounds)\<close>: the round is logged, one \<^verbatim>\<open>sample.remote()\<close> is
  issued to every remote evaluation worker, and \<^verbatim>\<open>ray.get\<close> waits for all of them.
\<close>

fun round_loop ::
  "(nat \<Rightarrow> error option) \<Rightarrow> 'w list \<Rightarrow> int \<Rightarrow> nat \<Rightarrow> nat \<Rightarrow> error option \<times> 'w eval_event list" where
  "round_loop get ws num_episodes i 0 = (None, [])"
| "round_loop get ws num_episodes i (Suc n) =
     (let evs0 = RoundInfo i ((int i + 1) * int (length ws)) num_episodes
                   # map RemoteSample ws
      in case get i of
           Some e \<Rightarrow> (Some e, evs0)
         | None \<Rightarrow> (let (r, evs) = round_loop get ws num_episodes (Suc i) n
                    in (r, evs0 @ evs)))"

subsection \<open>\<^verbatim>\<open>evaluate\<close>\<close>

text \<open>
  The \<^verbatim>\<open>try\<close> block of the branch without evaluation workers, with its handler: a
  \<^verbatim>\<open>ValueError\<close> whose message contains the marker of a worker without environment
  is replaced by the error that names the remedies, any other error is raised as it is.
\<close>

definition eval_on_local_worker ::
  "'m eval_extern \<Rightarrow> ('w, 'm) eval_trainer \<Rightarrow> (error + 'm pyobj) \<times> 'w eval_event list" where
  "eval_on_local_worker X s =
     (let (r, evs) =
            (case sample_loop (local_sample X) LocalSample 0
                    (nat (evaluation_num_episodes s)) of
               (Some e, evs) \<Rightarrow> (Inl e, evs)
             | (None, evs) \<Rightarrow>
                 (case collect_metrics_local X of
                    Inl e \<Rightarrow> (Inl e, evs @ [CollectMetrics])
                  | Inr d \<Rightarrow> (Inr (PyDict d), evs @ [CollectMetrics])))
      in case r of
           Inl (ValueError msg) \<Rightarrow>
             if contains msg no_input_reader then (Inl (ValueError no_env_message), evs)
             else (Inl (ValueError msg), evs)
         | _ \<Rightarrow> (r, evs))"

definition eval_on_remote_workers ::
  "'m eval_extern \<Rightarrow> ('w, 'm) eval_trainer \<Rightarrow> 'w list \<Rightarrow> error option \<times> 'w eval_event list" where
  "eval_on_remote_workers X s ws =
     (case py_truediv (evaluation_num_episodes s) (evaluation_num_workers s) of
        Inl e \<Rightarrow> (Some e, [])
      | Inr q \<Rightarrow>
          (let num_rounds = math_ceil q;
               num_workers = int (length ws);
               num_episodes = num_rounds * num_workers
           in round_loop (ray_get_round X) ws num_episodes 0 (nat num_rounds)))"

text \<open>
  The \<^verbatim>\<open>else\<close> branch of \<^verbatim>\<open>evaluate\<close>: the default procedure, in its three modes,
  and the final \<^verbatim>\<open>collect_metrics\<close> on the evaluation workers when \<^verbatim>\<open>metrics\<close> is
  still \<^verbatim>\<open>None\<close>.
\<close>

definition default_evaluation ::
  "'m eval_extern \<Rightarrow> ('w, 'm) eval_trainer \<Rightarrow> (error + 'm pyobj) \<times> 'w eval_event list" where
  "default_evaluation X s =
     (case evaluation_workers s of
        None \<Rightarrow> eval_on_local_worker X s
      | Some ws \<Rightarrow>
          (case (if evaluation_num_workers s = 0
                 then sample_loop (eval_local_sample X) EvalLocalSample 0
                        (nat (evaluation_num_episodes s))
                 else eval_on_remote_workers X s ws) of
             (Some e, evs) \<Rightarrow> (Inl e, evs)
           | (None, evs) \<Rightarrow>
               (case collect_metrics_eval X of
                  Inl e \<Rightarrow> (Inl e, evs @ [CollectMetrics])
                | Inr d \<Rightarrow> (Inr (PyDict d), evs @ [CollectMetrics]))))"

text \<open>
  The synchronisation before evaluating, when there are evaluation workers:
  \<^verbatim>\<open>_sync_weights_to_workers\<close>, then \<^verbatim>\<open>_sync_filters_if_needed\<close>.
\<close>

definition sync_evaluation_workers ::
  "'m eval_extern \<Rightarrow> ('w, 'm) eval_trainer \<Rightarrow> error option \<times> 'w eval_event list" where
  "sync_evaluation_workers X s =
     (if evaluation_workers s \<noteq> None then
        (case foreach_worker_restore X of
           Some e \<Rightarrow> (Some e, [SyncWeights])
         | None \<Rightarrow>
             if eval_observation_filter s \<noteq> ''NoFilter'' then
               (eval_filter_synchronize X, [SyncWeights, SyncEvalFilters])
             else (None, [SyncWeights]))
      else (None, []))"

text \<open>
  \<^verbatim>\<open>evaluate\<close> returns \<^verbatim>\<open>{"evaluation": metrics}\<close>; the model returns \<open>metrics\<close>.
\<close>

definition evaluate ::
  "'m eval_extern \<Rightarrow> ('w, 'm) eval_trainer \<Rightarrow> (error + 'm pyobj) \<times> 'w eval_event list" where
  "evaluate X s =
     (case sync_evaluation_workers X s of
        (Some e, evs) \<Rightarrow> (Inl e, evs)
      | (None, evs) \<Rightarrow>
          (case custom_eval_function s of
             Some f \<Rightarrow>
               (case f (evaluation_workers s) of
                  Inl e \<Rightarrow> (Inl e, evs @ [CustomEval])
                | Inr metrics \<Rightarrow>
                    if \<not> truthy metrics \<or> \<not> is_dict metrics
                    then (Inl (ValueError custom_eval_message), evs @ [CustomEval])
                    else (Inr metrics, evs @ [CustomEval]))
           | None \<Rightarrow>
               (let (r, evs') = default_evaluation X s in (r, evs @ evs'))))"

text \<open>The rounds and the remote sampling calls of a trace.\<close>

fun is_round :: "'w eval_event \<Rightarrow> bool" where
  "is_round (RoundInfo i k n) = True"
| "is_round e = False"

fun is_remote_sample :: "'w eval_event \<Rightarrow> bool" where
  "is_remote_sample (RemoteSample w) = True"
| "is_remote_sample e = False"

fun is_default_sampling :: "'w eval_event \<Rightarrow> bool" where
  "is_default_sampling LocalSample = True"
| "is_default_sampling EvalLocalSample = True"
| "is_default_sampling (RemoteSample w) = True"
| "is_default_sampling (RoundInfo i k n) = True"
| "is_default_sampling CollectMetrics = True"
| "is_default_sampling e = False"

section \<open>Concrete pools and environments\<close>

text \<open>
  A pool of three remote workers whose training step always dies with a worker
  error; worker 2 fails its health check. In \<open>X_dead\<close> every health check fails; in
  \<open>X_env_error\<close> the step fails with an error that is not a worker error.
\<close>

definition X_crash :: "(nat, nat list, unit, nat) extern" where
  "X_crash =
     \<lparr>Trainable_train = (\<lambda>s. (Inl (RayError ''actor died''), s)),
      ray_get = (\<lambda>s w. w \<noteq> 2),
      ray_terminate = (\<lambda>w. True),
      FilterManager_synchronize = (\<lambda>s. None)\<rparr>"

definition X_dead :: "(nat, nat list, unit, nat) extern" where
  "X_dead = X_crash\<lparr>ray_get := (\<lambda>s w. False)\<rparr>"

definition X_env_error :: "(nat, nat list, unit, nat) extern" where
  "X_env_error = X_crash\<lparr>Trainable_train := (\<lambda>s. (Inl (ValueError ''bad env''), s))\<rparr>"

definition pool3 :: "bool \<Rightarrow> (nat, nat list, unit) trainer" where
  "pool3 tolerant =
     \<lparr>ignore_worker_failures = tolerant, observation_filter = ''NoFilter'',
      synchronize_filters = True, workers = Some [1, 2, 3],
      execution_plan = Some (\<lambda>ws. ws), train_exec_impl = None, other = ()\<rparr>"


text \<open>
  A trainer with two remote workers and no replay buffer, whose configuration asks for
  the buffer in checkpoints; one with a buffer and the setting off; and checkpoints with
  and without buffer data. Nothing raises, and \<^verbatim>\<open>log_once\<close> has seen the key in
  \<open>CX_logged\<close>.
\<close>

definition CX :: "nat ckpt_extern" where
  "CX = \<lparr>local_save = 7, optimizer_save = 8, buffer_get_state = 9,
         local_restore = (\<lambda>b. None), optimizer_restore = (\<lambda>b. None),
         buffer_set_state = (\<lambda>b. None), log_once = (\<lambda>k. True)\<rparr>"


definition no_buffer_trainer :: "nat ckpt_trainer" where
  "no_buffer_trainer =
     \<lparr>remote_pool = Some [1, 2], has_optimizer = True, optimizer_has_save = True,
      has_replay_buffer = False, store_buffer_in_checkpoints = True\<rparr>"


definition ckpt_plain :: "nat checkpoint" where
  "ckpt_plain = [''worker'' \<mapsto> 7, ''optimizer'' \<mapsto> 8]"


text \<open>
  Evaluation: an environment in which nothing raises except the \<^verbatim>\<open>sample()\<close> of the
  trainer's local worker, which has no environment; a trainer without evaluation
  workers, one with three remote evaluation workers and ten episodes, and one whose
  custom evaluation function returns the given object.
\<close>

definition EVX :: "nat eval_extern" where
  "EVX = \<lparr>foreach_worker_restore = None, eval_filter_synchronize = None,
         local_sample = (\<lambda>i. Some (ValueError
           ''RolloutWorker has no `input_reader` object! Cannot call `sample()`.'')),
         eval_local_sample = (\<lambda>i. None), ray_get_round = (\<lambda>i. None),
         collect_metrics_local = Inr [(''episodes_this_iter'', 0)],
         collect_metrics_eval = Inr [(''episodes_this_iter'', 12)]\<rparr>"

definition local_only_trainer :: "(nat, nat) eval_trainer" where
  "local_only_trainer =
     \<lparr>custom_eval_function = None, evaluation_num_episodes = 10,
      evaluation_num_workers = 0, evaluation_workers = None,
      eval_observation_filter = ''NoFilter''\<rparr>"

definition eval_pool_trainer :: "int \<Rightarrow> nat list \<Rightarrow> (nat, nat) eval_trainer" where
  "eval_pool_trainer E ws =
     \<lparr>custom_eval_function = None, evaluation_num_episodes = E,
      evaluation_num_workers = int (length ws), evaluation_workers = Some ws,
      eval_observation_filter = ''NoFilter''\<rparr>"

definition custom_trainer :: "nat pyobj \<Rightarrow> (nat, nat) eval_trainer" where
  "custom_trainer answer =
     local_only_trainer\<lparr>custom_eval_function := Some (\<lambda>ws. Inr answer)\<rparr>"

section \<open>Recovery keeps exactly the healthy workers\<close>

text \<open>
  The index loop of \<^verbatim>\<open>_try_recover\<close> never reads out of range, and what it collects
  is the list of workers whose health check returned, in pool order.
\<close>

lemma check_loop_healthy:
  "cs = drop i ws \<Longrightarrow>
   fst (check_loop get term ws i cs healthy) = Inr (healthy @ filter get cs)"
proof (induction cs arbitrary: i healthy)
  case Nil
  then show ?case by simp
next
  case (Cons c cs)
  from Cons.prems have lt: "i < length ws"
    by (metis drop_eq_Nil list.distinct(1) not_le)
  from Cons.prems lt have c: "ws ! i = c" and cs: "cs = drop (Suc i) ws"
    by (metis Cons_nth_drop_Suc list.inject)+
  show ?case
    using lt c Cons.IH [OF cs] by (simp add: Let_def case_prod_beta)
qed

lemma check_loop_no_attempt:
  "filter is_attempt (snd (check_loop get term ws i cs healthy)) = []"
  by (induction cs arbitrary: i healthy) (simp_all add: Let_def case_prod_beta)

lemma try_recover_no_attempt:
  "filter is_attempt (snd (snd (try_recover X s))) = []"
proof -
  have m: "filter is_attempt (map Probe ws) = []" for ws :: "'a list"
    by (induction ws) simp_all
  have c: "filter is_attempt evs = []"
    if "check_loop (ray_get X s) (ray_terminate X) ws i cs h = (r, evs)"
    for ws i cs h r and evs :: "'a event list"
    using check_loop_no_attempt [of "ray_get X s" "ray_terminate X" ws i cs h] that
    by simp
  show ?thesis
    by (auto simp: try_recover_def Let_def m split: option.splits prod.splits sum.splits
             dest: c)
qed

lemma try_recover_healthy:
  assumes "execution_plan s = Some plan" and "workers s = Some ws"
  shows "try_recover X s =
     (let healthy = filter (ray_get X s) ws;
          evs = LogInfo ''Health checking all workers...'' # map Probe ws
                 @ snd (check_loop (ray_get X s) (ray_terminate X) ws 0 ws [])
      in if healthy = [] then
           (Inl (RuntimeError ''Not enough healthy workers remain to continue.''), s, evs)
         else (Inr (), s\<lparr>workers := Some healthy, train_exec_impl := Some (plan healthy)\<rparr>,
               evs @ [LogWarning ''Recreating execution plan after failure'']))"
proof -
  have "fst (check_loop (ray_get X s) (ray_terminate X) ws 0 ws []) =
        Inr (filter (ray_get X s) ws)"
    using check_loop_healthy [of ws 0 ws "ray_get X s" "ray_terminate X" "[]"] by simp
  then obtain evs where
    "check_loop (ray_get X s) (ray_terminate X) ws 0 ws [] = (Inr (filter (ray_get X s) ws), evs)"
    by (cases "check_loop (ray_get X s) (ray_terminate X) ws 0 ws []") simp
  with assms show ?thesis
    by (simp add: try_recover_def Let_def)
qed

lemma filter_split_length:
  "length (filter P xs) + length (filter (\<lambda>x. \<not> P x) xs) = length xs"
  by (induction xs) simp_all

text \<open>
  C2. In a pool of \<open>N \<ge> 1\<close> remote workers of which exactly \<open>K\<close> fail the health
  check: when \<open>K < N\<close>, recovery succeeds, the pool's remote workers are exactly the
  \<open>N - K\<close> workers whose check succeeded, and the execution plan is rebuilt on them;
  when \<open>K = N\<close>, recovery raises and leaves the trainer as it was.
\<close>

theorem try_recover_prunes:
  assumes "execution_plan s = Some plan" and "workers s = Some ws" and "1 \<le> length ws"
    and "K = length (filter (\<lambda>w. \<not> ray_get X s w) ws)"
  shows "(K < length ws \<longrightarrow>
            fst (try_recover X s) = Inr ()
          \<and> workers (fst (snd (try_recover X s))) = Some (filter (ray_get X s) ws)
          \<and> length (filter (ray_get X s) ws) = length ws - K
          \<and> train_exec_impl (fst (snd (try_recover X s)))
              = Some (plan (filter (ray_get X s) ws)))
       \<and> (K = length ws \<longrightarrow>
            fst (try_recover X s)
              = Inl (RuntimeError ''Not enough healthy workers remain to continue.'')
          \<and> fst (snd (try_recover X s)) = s)"
proof -
  have len: "length (filter (ray_get X s) ws) + K = length ws"
    using filter_split_length [of "ray_get X s" ws] assms(4) by simp
  show ?thesis
  proof (cases "K < length ws")
    case True
    with len have "filter (ray_get X s) ws \<noteq> []" by auto
    with True len show ?thesis
      by (simp add: try_recover_healthy [OF assms(1,2)] Let_def)
  next
    case False
    with len have "length (filter (ray_get X s) ws) = 0" by arith
    then have "filter (ray_get X s) ws = []" by simp
    with False len show ?thesis
      by (simp add: try_recover_healthy [OF assms(1,2)] Let_def)
  qed
qed

theorem try_recover_prunes_witness:
  "fst (try_recover X_crash (pool3 True)) = Inr ()
   \<and> workers (fst (snd (try_recover X_crash (pool3 True)))) = Some [1, 3]
   \<and> fst (try_recover X_dead (pool3 True))
       = Inl (RuntimeError ''Not enough healthy workers remain to continue.'')"
  using try_recover_prunes [of "pool3 True" "\<lambda>ws. ws" "[1, 2, 3]" 1 X_crash]
        try_recover_prunes [of "pool3 True" "\<lambda>ws. ws" "[1, 2, 3]" 3 X_dead]
  by (simp add: pool3_def X_crash_def X_dead_def)

section \<open>The retry loop of \<^verbatim>\<open>train\<close>\<close>

lemma train_loop_attempts:
  "attempts (snd (snd (train_loop X n s))) \<le> n"
proof (induction n arbitrary: s)
  case 0
  then show ?case by (simp add: attempts_def)
next
  case (Suc n)
  obtain r s1 where t: "Trainable_train X s = (r, s1)"
    by (cases "Trainable_train X s")
  show ?case
  proof (cases r)
    case (Inr res)
    with t show ?thesis by (simp add: attempts_def)
  next
    case (Inl e)
    show ?thesis
    proof (cases "(\<exists>m. e = RayError m) \<and> ignore_worker_failures s1")
      case False
      with t Inl show ?thesis
        by (cases e) (simp_all add: attempts_def)
    next
      case True
      then obtain m where e: "e = RayError m" and ig: "ignore_worker_failures s1" by blast
      obtain q s2 evs where tr: "try_recover X s1 = (q, s2, evs)"
        by (cases "try_recover X s1")
      have na: "filter is_attempt evs = []"
        using try_recover_no_attempt [of X s1] tr by simp
      show ?thesis
      proof (cases q)
        case (Inl e')
        with t \<open>r = Inl e\<close> e ig tr na show ?thesis
          by (simp add: attempts_def)
      next
        case (Inr u)
        with t \<open>r = Inl e\<close> e ig tr na Suc.IH [of s2] show ?thesis
          by (simp add: attempts_def case_prod_beta)
      qed
    qed
  qed
qed

lemma train_loop_success:
  "fst (train_loop X n s) = Inr (Some res) \<Longrightarrow>
     StepAttempt True \<in> set (snd (snd (train_loop X n s)))
   \<and> (\<exists>s0 s1. Trainable_train X s0 = (Inr (Some res), s1))"
proof (induction n arbitrary: s)
  case 0
  then show ?case by simp
next
  case (Suc n)
  obtain r s1 where t: "Trainable_train X s = (r, s1)"
    by (cases "Trainable_train X s")
  show ?case
  proof (cases r)
    case (Inr res')
    with t Suc.prems show ?thesis by auto
  next
    case (Inl e)
    show ?thesis
    proof (cases "(\<exists>m. e = RayError m) \<and> ignore_worker_failures s1")
      case False
      with t Inl Suc.prems show ?thesis
        by (cases e) simp_all
    next
      case True
      then obtain m where e: "e = RayError m" and ig: "ignore_worker_failures s1" by blast
      obtain q s2 evs where tr: "try_recover X s1 = (q, s2, evs)"
        by (cases "try_recover X s1")
      show ?thesis
      proof (cases q)
        case (Inl e')
        with t \<open>r = Inl e\<close> e ig tr Suc.prems show ?thesis by simp
      next
        case (Inr u)
        with t \<open>r = Inl e\<close> e ig tr Suc.prems
        have "fst (train_loop X n s2) = Inr (Some res)"
          by (simp add: case_prod_beta)
        from Suc.IH [OF this] t \<open>r = Inl e\<close> e ig tr Inr show ?thesis
          by (simp add: case_prod_beta)
      qed
    qed
  qed
qed

text \<open>
  C1. Every call of \<^verbatim>\<open>train\<close> attempts the training step at most
  \<open>1 + MAX_WORKER_FAILURE_RETRIES = 4\<close> times; when no attempt returns, \<^verbatim>\<open>train\<close>
  raises, and a result it returns is the result of an attempt that returned it.
\<close>

theorem train_retry_bound:
  "attempts (snd (snd (train X s))) \<le> 1 + MAX_WORKER_FAILURE_RETRIES
   \<and> (StepAttempt True \<notin> set (snd (snd (train X s))) \<longrightarrow>
        (\<exists>e. fst (train X s) = Inl e))
   \<and> (\<forall>res. fst (train X s) = Inr res \<longrightarrow>
        (\<exists>s0 s1. Trainable_train X s0 = (Inr (Some res), s1)))"
proof -
  let ?n = "1 + MAX_WORKER_FAILURE_RETRIES"
  obtain r s1 evs where l: "train_loop X ?n s = (r, s1, evs)"
    by (cases "train_loop X ?n s")
  have a: "attempts evs \<le> ?n"
    using train_loop_attempts [of X ?n s] l by simp
  have sf: "attempts (snd (sync_filters_if_needed X s1)) = 0"
    by (simp add: sync_filters_if_needed_def attempts_def split: option.splits)
  have sn: "StepAttempt True \<notin> set (snd (sync_filters_if_needed X s1))"
    by (simp add: sync_filters_if_needed_def split: option.splits)
  show ?thesis
  proof (cases r)
    case (Inl e)
    with l a show ?thesis by (simp add: train_def)
  next
    case (Inr ro)
    show ?thesis
    proof (cases ro)
      case None
      with Inr l a show ?thesis by (simp add: train_def)
    next
      case (Some res)
      with Inr l have f: "fst (train_loop X ?n s) = Inr (Some res)" by simp
      from train_loop_success [OF f] l
      have ok: "StepAttempt True \<in> set evs"
        and ex: "\<exists>s0 s1. Trainable_train X s0 = (Inr (Some res), s1)" by simp_all
      have att: "attempts (evs @ snd (sync_filters_if_needed X s1)) \<le> ?n"
        using a sf by (simp add: attempts_def)
      from Inr Some l a ok ex att show ?thesis
        by (auto simp: train_def case_prod_beta split: option.splits)
    qed
  qed
qed

theorem train_retry_bound_witness:
  "StepAttempt True \<notin> set (snd (snd (train X_crash (pool3 True))))
   \<and> attempts (snd (snd (train X_crash (pool3 True)))) = 4
   \<and> fst (train X_crash (pool3 True))
       = Inl (RuntimeError ''Failed to recover from worker crash'')"
  using train_retry_bound [of X_crash "pool3 True"]
  by (simp add: train_def MAX_WORKER_FAILURE_RETRIES_def eval_nat_numeral try_recover_def
        pool3_def X_crash_def attempts_def)

text \<open>
  C3. At an attempt of the loop: a worker error with \<open>ignore_worker_failures\<close> off
  leaves the loop at once, with no recovery; an error that is not a worker error
  leaves the loop at once whatever the setting; a worker error with the setting on
  runs \<^verbatim>\<open>_try_recover\<close>, whose own error leaves the loop and whose success is
  followed by the remaining attempts on the recovered trainer. An error that leaves
  the loop leaves \<^verbatim>\<open>train\<close>.
\<close>

theorem train_failure_policy:
  "(Trainable_train X s = (Inl (RayError m), s1) \<and> \<not> ignore_worker_failures s1 \<longrightarrow>
      train_loop X (Suc n) s =
        (Inl (RayError m), s1,
         [StepAttempt False, LogInfo ''Worker crashed during call to train().'']))
   \<and> (Trainable_train X s = (Inl e, s1) \<and> (\<forall>m'. e \<noteq> RayError m') \<longrightarrow>
      fst (train_loop X (Suc n) s) = Inl e
      \<and> fst (snd (train_loop X (Suc n) s)) = s1
      \<and> snd (snd (train_loop X (Suc n) s))
          = (if (\<exists>m'. e = BaseException m') then [StepAttempt False]
             else [StepAttempt False, Sleep]))
   \<and> (Trainable_train X s = (Inl (RayError m), s1) \<and> ignore_worker_failures s1 \<longrightarrow>
      (\<forall>e' s2 evs. try_recover X s1 = (Inl e', s2, evs) \<longrightarrow>
         train_loop X (Suc n) s =
           (Inl e', s2,
            [StepAttempt False,
             LogException ''Error in train call, attempting to recover''] @ evs))
      \<and> (\<forall>s2 evs. try_recover X s1 = (Inr (), s2, evs) \<longrightarrow>
         train_loop X (Suc n) s =
           (fst (train_loop X n s2), fst (snd (train_loop X n s2)),
            [StepAttempt False,
             LogException ''Error in train call, attempting to recover''] @ evs
              @ snd (snd (train_loop X n s2)))))
   \<and> (\<forall>e'. fst (train_loop X (1 + MAX_WORKER_FAILURE_RETRIES) s) = Inl e' \<longrightarrow>
        fst (train X s) = Inl e')"
proof (intro conjI impI allI)
  assume "Trainable_train X s = (Inl (RayError m), s1) \<and> \<not> ignore_worker_failures s1"
  then show "train_loop X (Suc n) s =
        (Inl (RayError m), s1,
         [StepAttempt False, LogInfo ''Worker crashed during call to train().''])"
    by simp
next
  assume a: "Trainable_train X s = (Inl e, s1) \<and> (\<forall>m'. e \<noteq> RayError m')"
  then show "fst (train_loop X (Suc n) s) = Inl e"
    by (cases e) simp_all
  from a show "fst (snd (train_loop X (Suc n) s)) = s1"
    by (cases e) simp_all
  from a show "snd (snd (train_loop X (Suc n) s))
          = (if (\<exists>m'. e = BaseException m') then [StepAttempt False]
             else [StepAttempt False, Sleep])"
    by (cases e) simp_all
next
  fix e' s2 evs
  assume "Trainable_train X s = (Inl (RayError m), s1) \<and> ignore_worker_failures s1"
    and "try_recover X s1 = (Inl e', s2, evs)"
  then show "train_loop X (Suc n) s =
           (Inl e', s2,
            [StepAttempt False,
             LogException ''Error in train call, attempting to recover''] @ evs)"
    by simp
next
  fix s2 evs
  assume "Trainable_train X s = (Inl (RayError m), s1) \<and> ignore_worker_failures s1"
    and "try_recover X s1 = (Inr (), s2, evs)"
  then show "train_loop X (Suc n) s =
           (fst (train_loop X n s2), fst (snd (train_loop X n s2)),
            [StepAttempt False,
             LogException ''Error in train call, attempting to recover''] @ evs
              @ snd (snd (train_loop X n s2)))"
    by (simp add: case_prod_beta)
next
  fix e'
  assume "fst (train_loop X (1 + MAX_WORKER_FAILURE_RETRIES) s) = Inl e'"
  then show "fst (train X s) = Inl e'"
    by (cases "train_loop X (1 + MAX_WORKER_FAILURE_RETRIES) s") (simp add: train_def)
qed

theorem train_failure_policy_witness:
  "train_loop X_crash 4 (pool3 False) =
     (Inl (RayError ''actor died''), pool3 False,
      [StepAttempt False, LogInfo ''Worker crashed during call to train().''])
   \<and> train_loop X_env_error 4 (pool3 True) =
     (Inl (ValueError ''bad env''), pool3 True, [StepAttempt False, Sleep])
   \<and> fst (train_loop X_dead 4 (pool3 True))
       = Inl (RuntimeError ''Not enough healthy workers remain to continue.'')
   \<and> attempts (snd (snd (train_loop X_crash 4 (pool3 True)))) = 4
   \<and> fst (train X_env_error (pool3 True)) = Inl (ValueError ''bad env'')"
proof -
  have n: "(4::nat) = Suc 3" by simp
  have d: "try_recover X_dead (pool3 True) =
     (Inl (RuntimeError ''Not enough healthy workers remain to continue.''), pool3 True,
      [LogInfo ''Health checking all workers...'', Probe 1, Probe 2, Probe 3,
       LogException ''Removing unhealthy worker'', Terminate 1,
       LogException ''Removing unhealthy worker'', Terminate 2,
       LogException ''Removing unhealthy worker'', Terminate 3])"
    by (simp add: try_recover_def pool3_def X_dead_def X_crash_def)
  have c: "try_recover X_crash (pool3 True) =
     (Inr (), (pool3 True)\<lparr>workers := Some [1, 3], train_exec_impl := Some [1, 3]\<rparr>,
      [LogInfo ''Health checking all workers...'', Probe 1, Probe 2, Probe 3,
       LogInfo ''Worker looks healthy'',
       LogException ''Removing unhealthy worker'', Terminate 2,
       LogInfo ''Worker looks healthy'',
       LogWarning ''Recreating execution plan after failure''])"
    by (simp add: try_recover_def pool3_def X_crash_def)
  have t: "Trainable_train X_crash s = (Inl (RayError ''actor died''), s)"
    "Trainable_train X_dead s = (Inl (RayError ''actor died''), s)"
    "Trainable_train X_env_error s = (Inl (ValueError ''bad env''), s)"
    for s :: "(nat, nat list, unit) trainer"
    by (simp_all add: X_crash_def X_dead_def X_env_error_def)
  have i: "ignore_worker_failures (pool3 True)" "\<not> ignore_worker_failures (pool3 False)"
    by (simp_all add: pool3_def)
  note p = train_failure_policy
  from p [of X_crash "pool3 False" "''actor died''" "pool3 False" 3] t i
  have 1: "train_loop X_crash 4 (pool3 False) =
     (Inl (RayError ''actor died''), pool3 False,
      [StepAttempt False, LogInfo ''Worker crashed during call to train().''])"
    unfolding n by blast
  from p [of X_env_error "pool3 True" _ "pool3 True" 3 "ValueError ''bad env''"] t
  have 2: "train_loop X_env_error 4 (pool3 True) =
     (Inl (ValueError ''bad env''), pool3 True, [StepAttempt False, Sleep])"
    unfolding n by (simp add: prod_eq_iff)
  from p [of X_dead "pool3 True" "''actor died''" "pool3 True" 3] t i d
  have 3: "fst (train_loop X_dead 4 (pool3 True))
       = Inl (RuntimeError ''Not enough healthy workers remain to continue.'')"
    unfolding n by simp
  from p [of X_crash "pool3 True" "''actor died''" "pool3 True" 3] t i c
  have 4: "attempts (snd (snd (train_loop X_crash 4 (pool3 True))))
       = 1 + attempts (snd (snd (train_loop X_crash 3
            ((pool3 True)\<lparr>workers := Some [1, 3], train_exec_impl := Some [1, 3]\<rparr>))))"
    unfolding n by (simp add: attempts_def)
  have 5: "attempts (snd (snd (train_loop X_crash 3
            ((pool3 True)\<lparr>workers := Some [1, 3], train_exec_impl := Some [1, 3]\<rparr>)))) = 3"
    by (simp add: eval_nat_numeral try_recover_def pool3_def X_crash_def attempts_def)
  from p [of X_env_error "pool3 True" _ _ 0] 2
  have 6: "fst (train X_env_error (pool3 True)) = Inl (ValueError ''bad env'')"
    by (simp add: MAX_WORKER_FAILURE_RETRIES_def)
  from 1 2 3 4 5 6 show ?thesis by simp
qed

section \<open>Restoring a checkpoint\<close>

lemma received_map:
  "received r (map (\<lambda>r'. RemoteRestore r' b) rs) = replicate (count_list rs r) b"
  by (induction rs) simp_all

lemma received_append: "received r (xs @ ys) = received r xs @ received r ys"
  by (induction xs rule: received.induct) simp_all


lemma warnings_map_remote [simp]: "warnings (map (\<lambda>r. RemoteRestore r b) rs) = []"
  by (induction rs) simp_all


text \<open>
  C4. Restoring a checkpoint that holds local-worker state onto a trainer that has
  workers, when the local worker accepts the blob: the local worker is restored from
  the blob of the checkpoint first, then that very blob is put in the object store and
  sent to every remote worker of the pool; every remote worker receives it and nothing
  else, and no worker outside the pool is sent anything.
\<close>

theorem setstate_broadcasts_worker_blob:
  assumes "st ''worker'' = Some b" and "remote_pool s = Some rs"
    and "local_restore X b = None"
  shows "take (2 + length rs) (snd (setstate X st s))
           = LocalRestore b # RayPut b # map (\<lambda>r. RemoteRestore r b) rs
       \<and> (\<forall>r \<in> set rs. received r (snd (setstate X st s)) = replicate (count_list rs r) b)
       \<and> (\<forall>r b'. RemoteRestore r b' \<in> set (snd (setstate X st s)) \<longrightarrow> b' = b \<and> r \<in> set rs)"
proof -
  let ?ws = "LocalRestore b # RayPut b # map (\<lambda>r. RemoteRestore r b) rs"
  have w: "restore_workers X st s = (None, ?ws)"
    using assms by (simp add: restore_workers_def)
  obtain ro eo where o: "restore_optimizer X st s = (ro, eo)"
    by (cases "restore_optimizer X st s")
  obtain rb eb where bf: "restore_buffer X st s = (rb, eb)"
    by (cases "restore_buffer X st s")
  have no: "received r eo = []" "\<And>b'. RemoteRestore r b' \<notin> set eo" for r
    using o by (auto simp: restore_optimizer_def split: option.splits if_splits)
  have nb: "received r eb = []" "\<And>b'. RemoteRestore r b' \<notin> set eb" for r
    using bf by (auto simp: restore_buffer_def split: option.splits if_splits)
  have "\<exists>rest. snd (setstate X st s) = ?ws @ rest \<and> (\<forall>r. received r rest = [])
          \<and> (\<forall>r b'. RemoteRestore r b' \<notin> set rest)"
    using w o bf no nb
    by (cases ro) (auto simp: setstate_def received_append)
  then obtain rest where s: "snd (setstate X st s) = ?ws @ rest"
    and r: "\<And>r. received r rest = []" and n: "\<And>r b'. RemoteRestore r b' \<notin> set rest"
    by blast
  have 1: "take (2 + length rs) (snd (setstate X st s)) = ?ws"
    by (simp add: s)
  have 2: "received r (snd (setstate X st s)) = replicate (count_list rs r) b" for r
    by (simp add: s received_append r received_map del: append_Cons)
  have 3: "b' = b \<and> r \<in> set rs" if "RemoteRestore r b' \<in> set (snd (setstate X st s))" for r b'
    using that n by (auto simp: s)
  from 1 2 3 show ?thesis by blast
qed

theorem setstate_broadcasts_worker_blob_witness:
  "ckpt_plain ''worker'' = Some 7
   \<and> snd (setstate CX ckpt_plain no_buffer_trainer)
       = [LocalRestore 7, RayPut 7, RemoteRestore 1 7, RemoteRestore 2 7, OptimizerRestore 8]
   \<and> received 2 (snd (setstate CX ckpt_plain no_buffer_trainer)) = [7]"
  using setstate_broadcasts_worker_blob [of ckpt_plain 7 no_buffer_trainer "[1, 2]" CX]
  by (simp add: setstate_def restore_workers_def restore_optimizer_def restore_buffer_def
        CX_def ckpt_plain_def no_buffer_trainer_def)









end
